theory Spec2Isabelle
  imports Main
begin

section \<open>Python values used by the bot\<close>

text \<open>
  The two source files, \<^verbatim>\<open>mobile_friendly_bot.py\<close> (webhook hosted) and
  \<^verbatim>\<open>render_compatible_bot.py\<close> (polling thread hosted), are embedded below.
  Exceptions are values.  \<open>HttpError\<close> is the storage provider's error class, the only one
  the inner \<^verbatim>\<open>except\<close> of \<^verbatim>\<open>handle_file\<close> names; \<open>ZeroDivisionError\<close> is what
  Python's \<^verbatim>\<open>/\<close> raises on a zero divisor; \<open>Exception\<close> is any other exception, carrying
  its text.  All three are subclasses of Python's \<^verbatim>\<open>Exception\<close>.
\<close>

datatype exn = HttpError string | ZeroDivisionError | Exception string

fun str_exn :: "exn \<Rightarrow> string" where
  "str_exn (HttpError s) = s"
| "str_exn ZeroDivisionError = ''division by zero''"
| "str_exn (Exception s) = s"

subsection \<open>Floating point\<close>

text \<open>
  Python's \<^verbatim>\<open>/\<close> on two ints and \<^verbatim>\<open>*\<close> on a float are binary64 operations: the
  exact result rounded to the nearest value with a 53 bit significand, ties to even.
  \<open>Dyadic m e\<close> denotes \<open>m * 2 ^ e\<close>.  Overflow to infinity and subnormal numbers are
  left out: they are out of reach for byte counts and percentages.
\<close>

datatype pyfloat = Dyadic int int

function bit_length :: "int \<Rightarrow> nat" where
  "bit_length n = (if n \<le> 0 then 0 else Suc (bit_length (n div 2)))"
  by pat_completeness auto
termination
  by (relation "measure nat") auto

declare bit_length.simps [simp del]

definition round_half_even :: "int \<Rightarrow> nat \<Rightarrow> int" where
  \<comment> \<open>\<open>n / 2 ^ s\<close> rounded to the nearest integer, ties to the even one\<close>
  "round_half_even n s =
     (if s = 0 then n
      else let q = n div 2 ^ s; r = n mod 2 ^ s; h = 2 ^ (s - 1)
           in if h < r \<or> (r = h \<and> odd q) then q + 1 else q)"

definition round53 :: "int \<Rightarrow> int \<Rightarrow> int \<times> int" where
  \<comment> \<open>the magnitude \<open>m * 2 ^ e\<close> with \<open>m\<close> cut to 53 bits\<close>
  "round53 m e = (let s = bit_length m - 53 in (round_half_even m s, e + int s))"

definition fl :: "int \<Rightarrow> int \<Rightarrow> pyfloat" where
  \<comment> \<open>the float nearest to \<open>m * 2 ^ e\<close>\<close>
  "fl m e = (case round53 \<bar>m\<bar> e of (m', e') \<Rightarrow> Dyadic (sgn m * m') e')"

definition fdiv :: "int \<Rightarrow> int \<Rightarrow> pyfloat" where
  \<comment> \<open>\<^verbatim>\<open>a / b\<close> for ints and \<open>b \<noteq> 0\<close>: a quotient of at least 55 bits, one sticky bit for
      the remainder, then the rounding to 53 bits\<close>
  "fdiv a b =
     (let k = (bit_length \<bar>b\<bar> + 55) - bit_length \<bar>a\<bar>;
          q = (\<bar>a\<bar> * 2 ^ k) div \<bar>b\<bar>;
          r = (\<bar>a\<bar> * 2 ^ k) mod \<bar>b\<bar>;
          y = 2 * q + (if r = 0 then 0 else 1)
      in case round53 y (- int k - 1) of (m, e) \<Rightarrow> Dyadic (sgn a * sgn b * m) e)"

definition int_truediv :: "int \<Rightarrow> int \<Rightarrow> exn + pyfloat" where
  "int_truediv a b = (if b = 0 then Inl ZeroDivisionError else Inr (fdiv a b))"

fun float_mul :: "pyfloat \<Rightarrow> pyfloat \<Rightarrow> pyfloat" where
  "float_mul (Dyadic m1 e1) (Dyadic m2 e2) = fl (m1 * m2) (e1 + e2)"

fun float_div :: "pyfloat \<Rightarrow> pyfloat \<Rightarrow> pyfloat" where
  \<comment> \<open>float by float, for a divisor that is not zero\<close>
  "float_div (Dyadic m1 e1) (Dyadic m2 e2) =
     (case fdiv m1 m2 of Dyadic m e \<Rightarrow> Dyadic m (e + e1 - e2))"

fun float_pos :: "pyfloat \<Rightarrow> bool" where
  "float_pos (Dyadic m e) = (0 < m)"

definition float_of_int :: "int \<Rightarrow> pyfloat" where
  "float_of_int n = fl n 0"

fun py_int :: "pyfloat \<Rightarrow> int" where
  \<comment> \<open>\<^verbatim>\<open>int(x)\<close>: truncation towards zero\<close>
  "py_int (Dyadic m e) =
     (if 0 \<le> e then m * 2 ^ nat e else sgn m * (\<bar>m\<bar> div 2 ^ nat (- e)))"

subsection \<open>Text\<close>

text \<open>
  A Python string is a sequence of code points.  The two block characters of the progress
  bar are outside ASCII, so a rendered bar is a list of glyphs: \<open>FullBlock\<close> is U+2588,
  \<open>LightShade\<close> is U+2591, \<open>Ch c\<close> an ASCII character.
\<close>

datatype glyph = FullBlock | LightShade | Ch char

function str_nat :: "int \<Rightarrow> string" where
  "str_nat n = (if n < 10 then [''0123456789'' ! nat n]
                else str_nat (n div 10) @ [''0123456789'' ! nat (n mod 10)])"
  by pat_completeness auto
termination
  by (relation "measure nat") auto

declare str_nat.simps [simp del]

definition str_int :: "int \<Rightarrow> string" where
  \<comment> \<open>\<^verbatim>\<open>str(n)\<close> of an int\<close>
  "str_int n = (if n < 0 then CHR ''-'' # str_nat (- n) else str_nat n)"

section \<open>Progress reporter\<close>

text \<open>
  \<^verbatim>\<open>create_progress_bar(progress, width=20)\<close>, the same text in both files.  A negative
  repeat count gives the empty string in Python, as \<open>nat\<close> of a negative number gives
  \<open>0\<close> here.
\<close>

definition create_progress_bar :: "int \<Rightarrow> int \<Rightarrow> glyph list" where
  "create_progress_bar progress width =
     (let filled = py_int (fdiv (width * progress) 100);
          bar = replicate (nat filled) FullBlock @ replicate (nat (width - filled)) LightShade
      in [Ch CHR ''[''] @ bar @ map Ch (''] '' @ str_int progress @ ''%''))"

text \<open>
  \<^verbatim>\<open>format_file_size(size_bytes)\<close>, the same text in both files.  The constructor is the
  unit suffix chosen; \<open>Bytes n\<close> is the text of \<open>n\<close> followed by \<^verbatim>\<open>B\<close>, the other three
  the float printed with two decimals followed by \<^verbatim>\<open>KB\<close>, \<^verbatim>\<open>MB\<close> or \<^verbatim>\<open>GB\<close>.
\<close>

datatype size_text = Bytes int | KB pyfloat | MB pyfloat | GB pyfloat

definition format_file_size :: "int \<Rightarrow> size_text" where
  "format_file_size size_bytes =
     (if size_bytes \<ge> 1024 ^ 3 then GB (fdiv size_bytes (1024 ^ 3))
      else if size_bytes \<ge> 1024 ^ 2 then MB (fdiv size_bytes (1024 ^ 2))
      else if size_bytes \<ge> 1024 then KB (fdiv size_bytes 1024)
      else Bytes size_bytes)"

section \<open>Collaborators\<close>

text \<open>
  An inbound event carries the sender's identifier and, for a file, the document:
  \<^verbatim>\<open>update.effective_user.id\<close> and \<^verbatim>\<open>update.message.document\<close> with its
  \<^verbatim>\<open>file_id\<close>, \<^verbatim>\<open>file_name\<close> and \<^verbatim>\<open>file_size\<close>.
\<close>

record document =
  file_id :: string
  file_name :: "string option"
  file_size :: int

record update =
  effective_user_id :: int
  message_document :: "document option"

text \<open>
  The texts the bot sends.  A constructor stands for one message template of the source,
  its arguments for the values the f-string interpolates, in the template's order.
\<close>

datatype drive_report =
    DriveConnected pyfloat "(pyfloat \<times> pyfloat) option"
  | DriveConnectionError string

datatype message =
    NotAuthorized
  | Welcome
  | HelpText
  | StatusReport drive_report
  | Hello
  | PleaseSendDocument
  | FileTooLarge string size_text
  | FileReceived string size_text
  | PreparingDownload
  | Downloading "glyph list" size_text size_text int
  | DownloadComplete string
  | Uploading "glyph list" size_text size_text int string
  | UploadSuccessful string size_text "string option" string
  | UploadFailed string string
  | ErrorProcessing string string

datatype log_record =
    DriveAuthFailed string
  | UploadError string
  | CleanedUp string
  | HandlingError string

text \<open>
  Every call that leaves the handler is an event of the run.  \<open>Sent\<close> is a
  \<^verbatim>\<open>reply_text\<close> that returned, \<open>Edited\<close> an \<^verbatim>\<open>edit_text\<close> that returned, and
  \<open>ChatFailed\<close> either of them raising.
\<close>

datatype event =
    Sent message
  | Edited message
  | ChatFailed message exn
  | GetFile string
  | MkTemp string
  | OpenWrite string
  | WriteChunk nat
  | GetDriveService
  | DriveAbout
  | OpenRead string
  | CreateUpload string "string list"
  | NextChunk
  | Unlink string
  | LogInfo log_record
  | LogError log_record

text \<open>
  What \<^verbatim>\<open>request.next_chunk()\<close> gives: it raises, or it returns the pair of a status
  (\<^verbatim>\<open>None\<close>, or an object whose \<^verbatim>\<open>progress()\<close> is a float) and a response
  (\<^verbatim>\<open>None\<close>, or the dictionary with the keys \<^verbatim>\<open>id\<close> and \<^verbatim>\<open>webViewLink\<close>, either
  of which may be missing).
\<close>

datatype response = Response "string option" "string option"

datatype next_chunk_result =
    Raises exn
  | Returns "pyfloat option" "response option"

text \<open>
  The configuration read at start and the answers of the two collaborators during one
  run.  \<open>chat_result n\<close> is the outcome of the \<open>n\<close>-th call that sends or edits a message,
  \<open>download_chunks\<close> the chunk lengths the download iterator yields, with \<open>Inl\<close> where it
  raises, \<open>next_chunk_results\<close> the successive answers of the upload session, and
  \<open>about_result\<close> the quota call with \<^verbatim>\<open>usage\<close> and \<^verbatim>\<open>limit\<close> already read as ints.
\<close>

record env =
  AUTHORIZED_USERS :: "int list"
  GOOGLE_DRIVE_FOLDER_ID :: "string option"
  chat_result :: "nat \<Rightarrow> exn option"
  get_file_result :: "exn option"
  temp_file_name :: string
  download_chunks :: "(exn + nat) list"
  drive_service_result :: "exn option"
  next_chunk_results :: "next_chunk_result list"
  about_result :: "exn + int \<times> int"

text \<open>
  The state a run changes: how many chat calls were made, and which temporary files exist.
\<close>

record world =
  chat_calls :: nat
  files :: "string set"

text \<open>
  A computation returns a value, raises, or does not return (\<open>Hang\<close>: the upload
  session never produced a response), together with the events it caused and the new
  state.
\<close>

datatype 'a res = Ret 'a | Raise exn | Hang

type_synonym 'a io = "world \<Rightarrow> 'a res \<times> event list \<times> world"

definition ret :: "'a \<Rightarrow> 'a io" where
  "ret a w = (Ret a, [], w)"

definition raise :: "exn \<Rightarrow> 'a io" where
  "raise e w = (Raise e, [], w)"

definition hang :: "'a io" where
  "hang w = (Hang, [], w)"

definition emit :: "event \<Rightarrow> unit io" where
  "emit ev w = (Ret (), [ev], w)"

definition then_io :: "'a io \<Rightarrow> ('a \<Rightarrow> 'b io) \<Rightarrow> 'b io" where
  \<comment> \<open>one statement after another\<close>
  "then_io m f w =
     (case m w of
        (Ret a, es, w') \<Rightarrow> (case f a w' of (r, es', w'') \<Rightarrow> (r, es @ es', w''))
      | (Raise e, es, w') \<Rightarrow> (Raise e, es, w')
      | (Hang, es, w') \<Rightarrow> (Hang, es, w'))"

definition try_except :: "'a io \<Rightarrow> (exn \<Rightarrow> 'a io option) \<Rightarrow> 'a io" where
  \<comment> \<open>\<^verbatim>\<open>try: m except ...: h\<close>; \<open>h e = None\<close> where no clause matches \<open>e\<close>\<close>
  "try_except m h w =
     (case m w of
        (Raise e, es, w') \<Rightarrow>
          (case h e of
             None \<Rightarrow> (Raise e, es, w')
           | Some k \<Rightarrow> (case k w' of (r, es', w'') \<Rightarrow> (r, es @ es', w'')))
      | other \<Rightarrow> other)"

definition try_finally :: "'a io \<Rightarrow> unit io \<Rightarrow> 'a io" where
  \<comment> \<open>\<^verbatim>\<open>try: m finally: c\<close>; an exception of \<open>c\<close> replaces the outcome of \<open>m\<close>\<close>
  "try_finally m c w =
     (case m w of
        (Hang, es, w') \<Rightarrow> (Hang, es, w')
      | (r, es, w') \<Rightarrow>
          (case c w' of
             (Ret u, es', w'') \<Rightarrow> (r, es @ es', w'')
           | (Raise e, es', w'') \<Rightarrow> (Raise e, es @ es', w'')
           | (Hang, es', w'') \<Rightarrow> (Hang, es @ es', w'')))"

subsection \<open>Chat transport\<close>

definition chat_call :: "env \<Rightarrow> (message \<Rightarrow> event) \<Rightarrow> message \<Rightarrow> unit io" where
  "chat_call E done m w =
     (case chat_result E (chat_calls w) of
        None \<Rightarrow> (Ret (), [done m], w\<lparr>chat_calls := Suc (chat_calls w)\<rparr>)
      | Some e \<Rightarrow> (Raise e, [ChatFailed m e], w\<lparr>chat_calls := Suc (chat_calls w)\<rparr>))"

definition reply_text :: "env \<Rightarrow> message \<Rightarrow> unit io" where
  "reply_text E m = chat_call E Sent m"

definition edit_text :: "env \<Rightarrow> message \<Rightarrow> unit io" where
  "edit_text E m = chat_call E Edited m"

definition get_file :: "env \<Rightarrow> string \<Rightarrow> unit io" where
  "get_file E fid =
     then_io (emit (GetFile fid))
       (\<lambda>_. case get_file_result E of None \<Rightarrow> ret () | Some e \<Rightarrow> raise e)"

subsection \<open>Temporary storage\<close>

definition named_temporary_file :: "env \<Rightarrow> string io" where
  \<comment> \<open>\<^verbatim>\<open>tempfile.NamedTemporaryFile(delete=False)\<close>: the file stays when it is closed\<close>
  "named_temporary_file E w =
     (Ret (temp_file_name E), [MkTemp (temp_file_name E)],
      w\<lparr>files := insert (temp_file_name E) (files w)\<rparr>)"

definition open_write :: "string \<Rightarrow> unit io" where
  "open_write path w = (Ret (), [OpenWrite path], w\<lparr>files := insert path (files w)\<rparr>)"

definition open_read :: "string \<Rightarrow> unit io" where
  "open_read path w =
     (if path \<in> files w then (Ret (), [OpenRead path], w)
      else (Raise (Exception ''No such file or directory''), [], w))"

definition os_unlink :: "string \<Rightarrow> unit io" where
  "os_unlink path w =
     (if path \<in> files w then (Ret (), [Unlink path], w\<lparr>files := files w - {path}\<rparr>)
      else (Raise (Exception ''No such file or directory''), [], w))"

subsection \<open>Storage provider\<close>

definition get_drive_service :: "env \<Rightarrow> unit io" where
  \<comment> \<open>\<^verbatim>\<open>get_drive_service()\<close> logs a failure and raises it again\<close>
  "get_drive_service E =
     then_io (emit GetDriveService)
       (\<lambda>_. case drive_service_result E of
               None \<Rightarrow> ret ()
             | Some e \<Rightarrow> then_io (emit (LogError (DriveAuthFailed (str_exn e)))) (\<lambda>_. raise e))"

definition drive_about :: "env \<Rightarrow> (int \<times> int) io" where
  "drive_about E =
     then_io (emit DriveAbout)
       (\<lambda>_. case about_result E of Inl e \<Rightarrow> raise e | Inr q \<Rightarrow> ret q)"

section \<open>Authorization gate and commands\<close>

text \<open>
  \<^verbatim>\<open>check_authorization\<close>, \<^verbatim>\<open>start_command\<close>, \<^verbatim>\<open>help_command\<close>,
  \<^verbatim>\<open>status_command\<close> and \<^verbatim>\<open>text_handler\<close> have the same statements in both files.
\<close>

definition check_authorization :: "env \<Rightarrow> update \<Rightarrow> bool io" where
  "check_authorization E u =
     (let user_id = effective_user_id u
      in if AUTHORIZED_USERS E = [] then ret True
         else if user_id \<in> set (AUTHORIZED_USERS E) then ret True
         else then_io (reply_text E NotAuthorized) (\<lambda>_. ret False))"

definition start_command :: "env \<Rightarrow> update \<Rightarrow> unit io" where
  "start_command E u =
     then_io (check_authorization E u)
       (\<lambda>ok. if \<not> ok then ret () else reply_text E Welcome)"

definition help_command :: "env \<Rightarrow> update \<Rightarrow> unit io" where
  "help_command E u =
     then_io (check_authorization E u)
       (\<lambda>ok. if \<not> ok then ret () else reply_text E HelpText)"

definition drive_status :: "env \<Rightarrow> drive_report io" where
  \<comment> \<open>the \<^verbatim>\<open>try\<close> block of \<^verbatim>\<open>status_command\<close> with its \<^verbatim>\<open>except Exception\<close>\<close>
  "drive_status E =
     try_except
       (then_io (get_drive_service E) (\<lambda>_.
        then_io (drive_about E) (\<lambda>(usage, limit).
          let used = fdiv usage (1024 ^ 3);
              total = fdiv limit (1024 ^ 3)
          in ret (DriveConnected used
                   (if float_pos total
                    then Some (total, float_mul (float_div used total) (float_of_int 100))
                    else None)))))
       (\<lambda>e. Some (ret (DriveConnectionError (str_exn e))))"

definition status_command :: "env \<Rightarrow> update \<Rightarrow> unit io" where
  "status_command E u =
     then_io (check_authorization E u)
       (\<lambda>ok. if \<not> ok then ret ()
             else then_io (drive_status E) (\<lambda>report. reply_text E (StatusReport report)))"

definition text_handler :: "env \<Rightarrow> update \<Rightarrow> unit io" where
  "text_handler E u =
     then_io (check_authorization E u)
       (\<lambda>ok. if \<not> ok then ret () else reply_text E Hello)"

section \<open>Transfer orchestrator\<close>

subsection \<open>Download phase\<close>

text \<open>
  The body of \<^verbatim>\<open>async for chunk in telegram_file.download_chunk(...)\<close> for a chunk of
  \<open>n\<close> bytes.  The loop state is \<^verbatim>\<open>(downloaded_size, last_progress_update)\<close>.
\<close>

definition download_step ::
  "env \<Rightarrow> int \<Rightarrow> size_text \<Rightarrow> nat \<Rightarrow> int \<times> int \<Rightarrow> (int \<times> int) io" where
  "download_step E declared_size file_size_formatted n st =
     (case st of (downloaded_size, last_progress_update) \<Rightarrow>
        then_io (emit (WriteChunk n)) (\<lambda>_.
          let downloaded_size = downloaded_size + int n
          in case int_truediv downloaded_size declared_size of
               Inl e \<Rightarrow> raise e
             | Inr ratio \<Rightarrow>
                 let progress = min (py_int (float_mul ratio (float_of_int 100))) 100
                 in if progress - last_progress_update \<ge> 3
                    then then_io
                           (edit_text E
                              (Downloading (create_progress_bar progress 20)
                                 (format_file_size downloaded_size) file_size_formatted progress))
                           (\<lambda>_. ret (downloaded_size, progress))
                    else ret (downloaded_size, last_progress_update)))"

fun download_loop ::
  "env \<Rightarrow> int \<Rightarrow> size_text \<Rightarrow> (exn + nat) list \<Rightarrow> int \<times> int \<Rightarrow> (int \<times> int) io" where
  "download_loop E declared_size fsf [] st = ret st"
| "download_loop E declared_size fsf (Inl e # chunks) st = raise e"
| "download_loop E declared_size fsf (Inr n # chunks) st =
     then_io (download_step E declared_size fsf n st) (download_loop E declared_size fsf chunks)"

text \<open>
  From \<^verbatim>\<open>status_message = ...\<close> to the \<^verbatim>\<open>Download Complete\<close> edit: the statements
  of the outer \<^verbatim>\<open>try\<close> that precede the inner one, the same in both files.  The result
  is \<^verbatim>\<open>temp_file_path\<close>.
\<close>

definition download_phase :: "env \<Rightarrow> document \<Rightarrow> string \<Rightarrow> size_text \<Rightarrow> string io" where
  "download_phase E file name file_size_formatted =
     then_io (reply_text E PreparingDownload) (\<lambda>_.
     then_io (get_file E (file_id file)) (\<lambda>_.
     then_io (named_temporary_file E) (\<lambda>temp_file_path.
     then_io (open_write temp_file_path) (\<lambda>_.
     then_io (download_loop E (file_size file) file_size_formatted (download_chunks E) (0, - 1)) (\<lambda>_.
     then_io (edit_text E (DownloadComplete name)) (\<lambda>_.
     ret temp_file_path))))))"

subsection \<open>Upload phase\<close>

text \<open>
  The body of \<^verbatim>\<open>while response is None\<close> after \<^verbatim>\<open>next_chunk()\<close> returned \<open>status\<close>;
  the result is the new \<^verbatim>\<open>last_upload_progress\<close>.
\<close>

definition upload_step ::
  "env \<Rightarrow> string \<Rightarrow> int \<Rightarrow> size_text \<Rightarrow> pyfloat option \<Rightarrow> int \<Rightarrow> int io" where
  "upload_step E name declared_size file_size_formatted status last_upload_progress =
     (case status of
        None \<Rightarrow> ret last_upload_progress
      | Some fraction \<Rightarrow>
          let progress = py_int (float_mul fraction (float_of_int 100));
              uploaded_size = py_int (float_mul (float_of_int declared_size) fraction)
          in if progress - last_upload_progress \<ge> 5
             then then_io
                    (edit_text E
                       (Uploading (create_progress_bar progress 20)
                          (format_file_size uploaded_size) file_size_formatted progress name))
                    (\<lambda>_. ret progress)
             else ret last_upload_progress)"

fun upload_loop ::
  "env \<Rightarrow> string \<Rightarrow> int \<Rightarrow> size_text \<Rightarrow> next_chunk_result list \<Rightarrow> int \<Rightarrow> response io" where
  "upload_loop E name declared_size fsf [] last_upload_progress = hang"
| "upload_loop E name declared_size fsf (Raises e # answers) last_upload_progress =
     then_io (emit NextChunk) (\<lambda>_. raise e)"
| "upload_loop E name declared_size fsf (Returns status response # answers) last_upload_progress =
     then_io (emit NextChunk) (\<lambda>_.
     then_io (upload_step E name declared_size fsf status last_upload_progress) (\<lambda>new_last.
       case response of
         None \<Rightarrow> upload_loop E name declared_size fsf answers new_last
       | Some r \<Rightarrow> ret r))"

definition parents :: "env \<Rightarrow> string list" where
  \<comment> \<open>\<^verbatim>\<open>[GOOGLE_DRIVE_FOLDER_ID] if GOOGLE_DRIVE_FOLDER_ID else []\<close>\<close>
  "parents E =
     (case GOOGLE_DRIVE_FOLDER_ID E of
        None \<Rightarrow> []
      | Some folder \<Rightarrow> if folder = [] then [] else [folder])"

definition upload_successful :: "env \<Rightarrow> string \<Rightarrow> size_text \<Rightarrow> response \<Rightarrow> unit io" where
  "upload_successful E name file_size_formatted response =
     (case response of Response drive_id link \<Rightarrow>
        edit_text E
          (UploadSuccessful name file_size_formatted drive_id
             (case link of None \<Rightarrow> ''Link not available'' | Some l \<Rightarrow> l)))"

text \<open>The body of the inner \<^verbatim>\<open>try\<close> in \<^verbatim>\<open>mobile_friendly_bot.py\<close>.\<close>

definition upload_body_mobile ::
  "env \<Rightarrow> string \<Rightarrow> int \<Rightarrow> size_text \<Rightarrow> string \<Rightarrow> unit io" where
  "upload_body_mobile E name declared_size fsf temp_file_path =
     then_io (get_drive_service E) (\<lambda>_.
     then_io (open_read temp_file_path) (\<lambda>_.
     then_io (emit (CreateUpload name (parents E))) (\<lambda>_.
     then_io (upload_loop E name declared_size fsf (next_chunk_results E) (- 1)) (\<lambda>response.
     upload_successful E name fsf response))))"

text \<open>
  The body of the inner \<^verbatim>\<open>try\<close> in \<^verbatim>\<open>render_compatible_bot.py\<close>: the same
  statements inside \<^verbatim>\<open>with open(temp_file_path, 'rb') as f:\<close>.
\<close>

definition upload_body_render ::
  "env \<Rightarrow> string \<Rightarrow> int \<Rightarrow> size_text \<Rightarrow> string \<Rightarrow> unit io" where
  "upload_body_render E name declared_size fsf temp_file_path =
     then_io (get_drive_service E) (\<lambda>_.
     then_io (open_read temp_file_path) (\<lambda>_.
     then_io (open_read temp_file_path) (\<lambda>_.
     then_io (emit (CreateUpload name (parents E))) (\<lambda>_.
     then_io (upload_loop E name declared_size fsf (next_chunk_results E) (- 1)) (\<lambda>response.
     upload_successful E name fsf response)))))"

definition upload_failed :: "env \<Rightarrow> string \<Rightarrow> exn \<Rightarrow> unit io option" where
  \<comment> \<open>\<^verbatim>\<open>except HttpError as error\<close>, the same in both files\<close>
  "upload_failed E name error =
     (case error of
        HttpError error_msg \<Rightarrow>
          Some (then_io (edit_text E (UploadFailed name error_msg))
                  (\<lambda>_. emit (LogError (UploadError error_msg))))
      | _ \<Rightarrow> None)"

definition cleanup_mobile :: "string \<Rightarrow> unit io" where
  \<comment> \<open>\<^verbatim>\<open>finally\<close> in \<^verbatim>\<open>mobile_friendly_bot.py\<close>: the log line is outside the \<^verbatim>\<open>if\<close>\<close>
  "cleanup_mobile temp_file_path =
     then_io (\<lambda>w. if temp_file_path \<in> files w then os_unlink temp_file_path w else ret () w)
       (\<lambda>_. emit (LogInfo (CleanedUp temp_file_path)))"

definition cleanup_render :: "string \<Rightarrow> unit io" where
  \<comment> \<open>\<^verbatim>\<open>finally\<close> in \<^verbatim>\<open>render_compatible_bot.py\<close>: the log line is inside the \<^verbatim>\<open>if\<close>\<close>
  "cleanup_render temp_file_path =
     (\<lambda>w. if temp_file_path \<in> files w
          then then_io (os_unlink temp_file_path)
                 (\<lambda>_. emit (LogInfo (CleanedUp temp_file_path))) w
          else ret () w)"

subsection \<open>The handler\<close>

definition transfer_mobile :: "env \<Rightarrow> document \<Rightarrow> string \<Rightarrow> size_text \<Rightarrow> unit io" where
  \<comment> \<open>the body of the outer \<^verbatim>\<open>try\<close>\<close>
  "transfer_mobile E file name fsf =
     then_io (download_phase E file name fsf) (\<lambda>temp_file_path.
       try_finally
         (try_except (upload_body_mobile E name (file_size file) fsf temp_file_path)
            (upload_failed E name))
         (cleanup_mobile temp_file_path))"

definition transfer_render :: "env \<Rightarrow> document \<Rightarrow> string \<Rightarrow> size_text \<Rightarrow> unit io" where
  "transfer_render E file name fsf =
     then_io (download_phase E file name fsf) (\<lambda>temp_file_path.
       try_finally
         (try_except (upload_body_render E name (file_size file) fsf temp_file_path)
            (upload_failed E name))
         (cleanup_render temp_file_path))"

definition display_name :: "document \<Rightarrow> string" where
  \<comment> \<open>\<^verbatim>\<open>file.file_name or "unnamed_file"\<close>\<close>
  "display_name file =
     (case file_name file of
        None \<Rightarrow> ''unnamed_file''
      | Some n \<Rightarrow> if n = [] then ''unnamed_file'' else n)"

definition max_size :: int where
  "max_size = 6 * 1024 * 1024 * 1024"

definition error_processing :: "env \<Rightarrow> string \<Rightarrow> exn \<Rightarrow> unit io option" where
  \<comment> \<open>\<^verbatim>\<open>except Exception as e\<close> of the outer \<^verbatim>\<open>try\<close>, the same in both files\<close>
  "error_processing E name e =
     Some (then_io (emit (LogError (HandlingError (str_exn e))))
             (\<lambda>_. reply_text E (ErrorProcessing name (str_exn e))))"

definition handle_file_mobile :: "env \<Rightarrow> update \<Rightarrow> unit io" where
  "handle_file_mobile E u =
     then_io (check_authorization E u) (\<lambda>ok.
       if \<not> ok then ret ()
       else case message_document u of
              None \<Rightarrow> reply_text E PleaseSendDocument
            | Some file \<Rightarrow>
                let name = display_name file;
                    file_size_formatted = format_file_size (file_size file)
                in if file_size file > max_size
                   then reply_text E (FileTooLarge name file_size_formatted)
                   else then_io (reply_text E (FileReceived name file_size_formatted)) (\<lambda>_.
                          try_except (transfer_mobile E file name file_size_formatted)
                            (error_processing E name)))"

definition handle_file_render :: "env \<Rightarrow> update \<Rightarrow> unit io" where
  "handle_file_render E u =
     then_io (check_authorization E u) (\<lambda>ok.
       if \<not> ok then ret ()
       else case message_document u of
              None \<Rightarrow> reply_text E PleaseSendDocument
            | Some file \<Rightarrow>
                let name = display_name file;
                    file_size_formatted = format_file_size (file_size file)
                in if file_size file > max_size
                   then reply_text E (FileTooLarge name file_size_formatted)
                   else then_io (reply_text E (FileReceived name file_size_formatted)) (\<lambda>_.
                          try_except (transfer_render E file name file_size_formatted)
                            (error_processing E name)))"

section \<open>Observations on a run\<close>

text \<open>
  The percentages of the status pushes of a run, in order: an edit with the download
  template, or with the upload template, whether it returned or raised.
\<close>

fun download_push :: "event \<Rightarrow> int option" where
  "download_push (Edited (Downloading b d t p)) = Some p"
| "download_push (ChatFailed (Downloading b d t p) e) = Some p"
| "download_push ev = None"

definition download_pushes :: "event list \<Rightarrow> int list" where
  "download_pushes es = List.map_filter download_push es"

fun upload_push :: "event \<Rightarrow> int option" where
  "upload_push (Edited (Uploading b d t p n)) = Some p"
| "upload_push (ChatFailed (Uploading b d t p n) e) = Some p"
| "upload_push ev = None"

definition upload_pushes :: "event list \<Rightarrow> int list" where
  "upload_pushes es = List.map_filter upload_push es"

definition events_of :: "'a res \<times> event list \<times> world \<Rightarrow> event list" where
  "events_of run = fst (snd run)"

definition world_of :: "'a res \<times> event list \<times> world \<Rightarrow> world" where
  "world_of run = snd (snd run)"

text \<open>The chunks a run wrote to the temporary file.\<close>

fun written_chunk :: "event \<Rightarrow> nat option" where
  "written_chunk (WriteChunk n) = Some n"
| "written_chunk ev = None"

definition written_chunks :: "event list \<Rightarrow> nat list" where
  "written_chunks es = List.map_filter written_chunk es"

text \<open>
  What the sender sees: the messages sent and the edits made, in order.  What the process
  keeps to itself: its log records and its reads of the temporary file.
\<close>

fun user_message :: "event \<Rightarrow> message option" where
  "user_message (Sent m) = Some m"
| "user_message (Edited m) = Some m"
| "user_message ev = None"

definition user_messages :: "event list \<Rightarrow> message list" where
  "user_messages es = List.map_filter user_message es"

fun internal :: "event \<Rightarrow> bool" where
  "internal (LogInfo l) = True"
| "internal (LogError l) = True"
| "internal (OpenRead p) = True"
| "internal ev = False"

definition external_events :: "event list \<Rightarrow> event list" where
  "external_events es = filter (\<lambda>ev. \<not> internal ev) es"

text \<open>
  Two runs agree when they end the same way, leave the same state and differ at most in
  what the process keeps to itself.
\<close>

definition agree :: "'a res \<times> event list \<times> world \<Rightarrow> 'a res \<times> event list \<times> world \<Rightarrow> bool" where
  "agree a b \<longleftrightarrow>
     fst a = fst b \<and> world_of a = world_of b
     \<and> external_events (events_of a) = external_events (events_of b)"

section \<open>A sample run\<close>

text \<open>
  A document of 2 MiB arriving in two chunks of 1 MiB, an upload session that reports
  one half and then the response, and collaborators that never fail.
\<close>

definition sample_document :: document where
  "sample_document = \<lparr>file_id = ''doc-1'', file_name = Some ''a.bin'', file_size = 2097152\<rparr>"

definition sample_update :: update where
  "sample_update = \<lparr>effective_user_id = 42, message_document = Some sample_document\<rparr>"

definition sample_env :: env where
  "sample_env =
     \<lparr>AUTHORIZED_USERS = [],
      GOOGLE_DRIVE_FOLDER_ID = Some ''folder'',
      chat_result = (\<lambda>n. None),
      get_file_result = None,
      temp_file_name = ''/tmp/tmpfile'',
      download_chunks = [Inr 1048576, Inr 1048576],
      drive_service_result = None,
      next_chunk_results =
        [Returns (Some (Dyadic 1 (- 1))) None,
         Returns None (Some (Response (Some ''drive-1'') (Some ''https://drive/1'')))],
      about_result = Inr (0, 0)\<rparr>"

definition start_world :: world where
  "start_world = \<lparr>chat_calls = 0, files = {}\<rparr>"

section \<open>Evaluation\<close>

lemmas io_defs = ret_def raise_def hang_def emit_def then_io_def try_except_def try_finally_def
  chat_call_def reply_text_def edit_text_def

lemma bit_length_nonpos: "n \<le> 0 \<Longrightarrow> bit_length n = 0"
  by (subst bit_length.simps) simp

lemma bit_length_pos: "0 < n \<Longrightarrow> bit_length n = Suc (bit_length (n div 2))"
  by (subst bit_length.simps) simp

lemma bit_length_numeral [simp]:
  "bit_length 0 = 0"
  "bit_length 1 = 1"
  "bit_length (numeral Num.One) = 1"
  "bit_length (numeral (Num.Bit0 k)) = 1 + bit_length (numeral k)"
  "bit_length (numeral (Num.Bit1 k)) = 1 + bit_length (numeral k)"
  by (simp_all add: bit_length_nonpos bit_length_pos)

lemmas float_eval = fdiv_def fl_def round53_def round_half_even_def float_of_int_def

section \<open>Authorization gate\<close>

text \<open>
  Claim C5.  With an empty allow-list \<open>check_authorization\<close> allows the sender; with the
  sender on the list it allows the sender, and in both cases nothing is sent and nothing
  changes.  With a list that is not empty and does not hold the sender, the check sends
  the rejection notice and returns \<open>False\<close>, and a run of \<open>handle_file\<close> (either file)
  consists of that one notice: no later stage runs.  Where the notice itself cannot be
  delivered, the failed attempt is the only event and its exception leaves the handler.
\<close>

theorem check_authorization_gate:
  "(AUTHORIZED_USERS E = [] \<longrightarrow> check_authorization E u w = (Ret True, [], w))
   \<and> (effective_user_id u \<in> set (AUTHORIZED_USERS E) \<longrightarrow>
        check_authorization E u w = (Ret True, [], w))
   \<and> (AUTHORIZED_USERS E \<noteq> [] \<and> effective_user_id u \<notin> set (AUTHORIZED_USERS E) \<longrightarrow>
        (chat_result E (chat_calls w) = None \<longrightarrow>
           check_authorization E u w =
             (Ret False, [Sent NotAuthorized], w\<lparr>chat_calls := Suc (chat_calls w)\<rparr>)
           \<and> handle_file_mobile E u w =
             (Ret (), [Sent NotAuthorized], w\<lparr>chat_calls := Suc (chat_calls w)\<rparr>)
           \<and> handle_file_render E u w =
             (Ret (), [Sent NotAuthorized], w\<lparr>chat_calls := Suc (chat_calls w)\<rparr>))
        \<and> (\<forall>e. chat_result E (chat_calls w) = Some e \<longrightarrow>
           check_authorization E u w =
             (Raise e, [ChatFailed NotAuthorized e], w\<lparr>chat_calls := Suc (chat_calls w)\<rparr>)
           \<and> handle_file_mobile E u w =
             (Raise e, [ChatFailed NotAuthorized e], w\<lparr>chat_calls := Suc (chat_calls w)\<rparr>)
           \<and> handle_file_render E u w =
             (Raise e, [ChatFailed NotAuthorized e], w\<lparr>chat_calls := Suc (chat_calls w)\<rparr>)))"
  by (simp add: check_authorization_def handle_file_mobile_def handle_file_render_def io_defs)

theorem check_authorization_gate_witness:
  "check_authorization sample_env sample_update start_world = (Ret True, [], start_world)
   \<and> check_authorization (sample_env\<lparr>AUTHORIZED_USERS := [7, 42]\<rparr>) sample_update start_world
     = (Ret True, [], start_world)
   \<and> handle_file_mobile (sample_env\<lparr>AUTHORIZED_USERS := [7]\<rparr>) sample_update start_world
     = (Ret (), [Sent NotAuthorized], \<lparr>chat_calls = 1, files = {}\<rparr>)
   \<and> handle_file_render
        (sample_env\<lparr>AUTHORIZED_USERS := [7],
                    chat_result := (\<lambda>n. Some (Exception ''timed out''))\<rparr>)
        sample_update start_world
     = (Raise (Exception ''timed out''), [ChatFailed NotAuthorized (Exception ''timed out'')],
        \<lparr>chat_calls = 1, files = {}\<rparr>)"
  using check_authorization_gate [of sample_env sample_update start_world]
        check_authorization_gate
          [of "sample_env\<lparr>AUTHORIZED_USERS := [7, 42]\<rparr>" sample_update start_world]
        check_authorization_gate
          [of "sample_env\<lparr>AUTHORIZED_USERS := [7]\<rparr>" sample_update start_world]
        check_authorization_gate
          [of "sample_env\<lparr>AUTHORIZED_USERS := [7],
                          chat_result := (\<lambda>n. Some (Exception ''timed out''))\<rparr>"
              sample_update start_world]
  by (simp add: sample_env_def sample_update_def start_world_def)

text \<open>
  Claim C9.  For a sender who is not on a non-empty allow-list, each of the start, help
  and status commands and the text handler does what the authorization check alone does:
  the one rejection notice (or its failed attempt) and nothing else.
\<close>

theorem commands_behind_gate:
  assumes "AUTHORIZED_USERS E \<noteq> []"
      and "effective_user_id u \<notin> set (AUTHORIZED_USERS E)"
  shows "\<forall>handler \<in> {start_command, help_command, status_command, text_handler}.
           handler E u w =
             (case chat_result E (chat_calls w) of
                None \<Rightarrow> (Ret (), [Sent NotAuthorized], w\<lparr>chat_calls := Suc (chat_calls w)\<rparr>)
              | Some e \<Rightarrow>
                  (Raise e, [ChatFailed NotAuthorized e], w\<lparr>chat_calls := Suc (chat_calls w)\<rparr>))"
  using assms
  by (simp add: start_command_def help_command_def status_command_def text_handler_def
        check_authorization_def io_defs split: option.split)

theorem commands_behind_gate_witness:
  "AUTHORIZED_USERS (sample_env\<lparr>AUTHORIZED_USERS := [7]\<rparr>) \<noteq> []
   \<and> effective_user_id sample_update \<notin> set (AUTHORIZED_USERS (sample_env\<lparr>AUTHORIZED_USERS := [7]\<rparr>))
   \<and> start_command (sample_env\<lparr>AUTHORIZED_USERS := [7]\<rparr>) sample_update start_world
       = (Ret (), [Sent NotAuthorized], \<lparr>chat_calls = 1, files = {}\<rparr>)
   \<and> help_command (sample_env\<lparr>AUTHORIZED_USERS := [7]\<rparr>) sample_update start_world
       = (Ret (), [Sent NotAuthorized], \<lparr>chat_calls = 1, files = {}\<rparr>)
   \<and> status_command (sample_env\<lparr>AUTHORIZED_USERS := [7]\<rparr>) sample_update start_world
       = (Ret (), [Sent NotAuthorized], \<lparr>chat_calls = 1, files = {}\<rparr>)
   \<and> text_handler (sample_env\<lparr>AUTHORIZED_USERS := [7]\<rparr>) sample_update start_world
       = (Ret (), [Sent NotAuthorized], \<lparr>chat_calls = 1, files = {}\<rparr>)"
  using commands_behind_gate [of "sample_env\<lparr>AUTHORIZED_USERS := [7]\<rparr>" sample_update start_world]
  by (simp add: sample_env_def sample_update_def start_world_def)

section \<open>Entry of the file handler\<close>

text \<open>
  Claim C10.  For an authorized sender whose message carries no document, a run of
  \<open>handle_file\<close> (either file) is the single notice asking for a file document: no
  temporary file is created and neither collaborator is contacted beyond that reply.
\<close>

theorem missing_document_notice:
  assumes "AUTHORIZED_USERS E = [] \<or> effective_user_id u \<in> set (AUTHORIZED_USERS E)"
      and "message_document u = None"
  shows "handle_file_mobile E u w =
           (case chat_result E (chat_calls w) of
              None \<Rightarrow> (Ret (), [Sent PleaseSendDocument], w\<lparr>chat_calls := Suc (chat_calls w)\<rparr>)
            | Some e \<Rightarrow>
                (Raise e, [ChatFailed PleaseSendDocument e], w\<lparr>chat_calls := Suc (chat_calls w)\<rparr>))
         \<and> handle_file_render E u w = handle_file_mobile E u w"
  using assms
  by (auto simp add: handle_file_mobile_def handle_file_render_def check_authorization_def io_defs
        split: option.split)

theorem missing_document_notice_witness:
  "(AUTHORIZED_USERS sample_env = []
      \<or> effective_user_id (sample_update\<lparr>message_document := None\<rparr>) \<in> set (AUTHORIZED_USERS sample_env))
   \<and> message_document (sample_update\<lparr>message_document := None\<rparr>) = None
   \<and> handle_file_mobile sample_env (sample_update\<lparr>message_document := None\<rparr>) start_world
       = (Ret (), [Sent PleaseSendDocument], \<lparr>chat_calls = 1, files = {}\<rparr>)
   \<and> handle_file_render sample_env (sample_update\<lparr>message_document := None\<rparr>) start_world
       = (Ret (), [Sent PleaseSendDocument], \<lparr>chat_calls = 1, files = {}\<rparr>)"
  using missing_document_notice [of sample_env "sample_update\<lparr>message_document := None\<rparr>" start_world]
  by (simp add: sample_env_def sample_update_def start_world_def)

text \<open>
  Claim C2.  For an authorized sender and a document of declared size \<open>s\<close>: if \<open>s\<close>
  exceeds \<open>6 * 1024 ^ 3\<close>, a run of \<open>handle_file\<close> (either file) is the single
  \<open>FileTooLarge\<close> reply, so no temporary file, no download and no provider call; if \<open>s\<close>
  is at most the ceiling, the guard does not fire: the run goes on to the
  \<open>FileReceived\<close> reply.
\<close>

theorem size_guard:
  assumes "AUTHORIZED_USERS E = [] \<or> effective_user_id u \<in> set (AUTHORIZED_USERS E)"
      and "message_document u = Some file"
  shows "(file_size file > 6 * 1024 ^ 3 \<longrightarrow>
            handle_file_mobile E u w =
              (case chat_result E (chat_calls w) of
                 None \<Rightarrow>
                   (Ret (), [Sent (FileTooLarge (display_name file) (format_file_size (file_size file)))],
                    w\<lparr>chat_calls := Suc (chat_calls w)\<rparr>)
               | Some e \<Rightarrow>
                   (Raise e,
                    [ChatFailed (FileTooLarge (display_name file) (format_file_size (file_size file))) e],
                    w\<lparr>chat_calls := Suc (chat_calls w)\<rparr>))
            \<and> handle_file_render E u w = handle_file_mobile E u w)
       \<and> (file_size file \<le> 6 * 1024 ^ 3 \<longrightarrow>
            (\<forall>handler \<in> {handle_file_mobile, handle_file_render}.
               \<exists>r es w'. handler E u w = (r, es, w')
                 \<and> (case chat_result E (chat_calls w) of
                       None \<Rightarrow>
                         (\<exists>rest. es = Sent (FileReceived (display_name file) (format_file_size (file_size file))) # rest)
                     | Some e \<Rightarrow>
                         r = Raise e \<and>
                         es = [ChatFailed (FileReceived (display_name file) (format_file_size (file_size file))) e])))"
  using assms
  by (auto simp add: handle_file_mobile_def handle_file_render_def check_authorization_def io_defs
        max_size_def Let_def split: option.split prod.split res.split)

theorem size_guard_witness:
  "(AUTHORIZED_USERS sample_env = []
      \<or> effective_user_id sample_update \<in> set (AUTHORIZED_USERS sample_env))
   \<and> message_document sample_update = Some sample_document
   \<and> file_size sample_document \<le> 6 * 1024 ^ 3
   \<and> (\<exists>r es w'. handle_file_mobile sample_env sample_update start_world = (r, es, w')
         \<and> (\<exists>rest. es = Sent (FileReceived ''a.bin'' (format_file_size 2097152)) # rest))
   \<and> file_size (sample_document\<lparr>file_size := 7516192768\<rparr>) > 6 * 1024 ^ 3
   \<and> handle_file_render sample_env
         (sample_update\<lparr>message_document := Some (sample_document\<lparr>file_size := 7516192768\<rparr>)\<rparr>)
         start_world
       = (Ret (), [Sent (FileTooLarge ''a.bin'' (format_file_size 7516192768))],
          \<lparr>chat_calls = 1, files = {}\<rparr>)"
  using size_guard [of sample_env sample_update sample_document start_world]
        size_guard
          [of sample_env
              "sample_update\<lparr>message_document := Some (sample_document\<lparr>file_size := 7516192768\<rparr>)\<rparr>"
              "sample_document\<lparr>file_size := 7516192768\<rparr>" start_world]
  by (simp add: sample_env_def sample_update_def sample_document_def start_world_def
        display_name_def)

section \<open>Progress bar\<close>

lemma filter_map_Ch [simp]:
  "filter (\<lambda>g. g = FullBlock) (map Ch s) = []" "filter (\<lambda>g. g = LightShade) (map Ch s) = []"
  by (induction s) simp_all

lemma bar_table:
  "\<forall>p \<in> set [0..100]. py_int (fdiv (20 * p) 100) = 20 * p div 100"
proof -
  define Q where "Q p \<longleftrightarrow> py_int (fdiv (20 * p) 100) = 20 * p div 100" for p
  have "\<forall>p \<in> set [0..100]. Q p"
    apply (simp add: upto.simps)
    apply (intro conjI)
    apply (simp_all add: Q_def float_eval)
    done
  then show ?thesis by (simp only: Q_def)
qed

lemma filled_cells: "0 \<le> p \<Longrightarrow> p \<le> 100 \<Longrightarrow> py_int (fdiv (20 * p) 100) = 20 * p div 100"
  using bar_table by simp

text \<open>
  Claim C7.  For an integer progress from 0 to 100 and width 20, \<open>create_progress_bar\<close>
  renders an opening bracket, \<open>20 * progress div 100\<close> filled cells, the remaining of
  the 20 cells empty, and the suffix with the percentage.  The witness has the three
  values of the claim: 0 filled cells at 0, 20 at 100 and 7 at 37.
\<close>

theorem progress_bar_cells:
  assumes "0 \<le> progress" and "progress \<le> 100"
  shows "create_progress_bar progress 20 =
           [Ch CHR ''['']
           @ replicate (nat (20 * progress div 100)) FullBlock
           @ replicate (20 - nat (20 * progress div 100)) LightShade
           @ map Ch (''] '' @ str_int progress @ ''%'')
         \<and> length (filter (\<lambda>g. g = FullBlock) (create_progress_bar progress 20))
             = nat (20 * progress div 100)
         \<and> length (filter (\<lambda>g. g = LightShade) (create_progress_bar progress 20))
             = 20 - nat (20 * progress div 100)
         \<and> length (filter (\<lambda>g. g = FullBlock \<or> g = LightShade) (create_progress_bar progress 20))
             = 20"
proof -
  have f: "py_int (fdiv (20 * progress) 100) = 20 * progress div 100"
    using assms by (rule filled_cells)
  have le: "20 * progress div 100 \<le> 20" and ge: "0 \<le> 20 * progress div 100"
    using assms by auto
  have n: "nat (20 - 20 * progress div 100) = 20 - nat (20 * progress div 100)"
    using le ge by simp
  have shape: "create_progress_bar progress 20 =
           [Ch CHR ''['']
           @ replicate (nat (20 * progress div 100)) FullBlock
           @ replicate (20 - nat (20 * progress div 100)) LightShade
           @ map Ch (''] '' @ str_int progress @ ''%'')"
    using f n by (simp add: create_progress_bar_def Let_def del: map_append)
  have le': "nat (20 * progress div 100) \<le> 20"
    using le by simp
  show ?thesis
    apply (subst shape)
    apply (subst shape)
    apply (subst shape)
    apply (subst shape)
    using le' apply (simp del: map_append add: filter_map_Ch)
    done
qed

theorem progress_bar_cells_witness:
  "(0::int) \<le> 37 \<and> (37::int) \<le> 100
   \<and> length (filter (\<lambda>g. g = FullBlock) (create_progress_bar 37 20)) = 7
   \<and> length (filter (\<lambda>g. g = LightShade) (create_progress_bar 37 20)) = 13
   \<and> length (filter (\<lambda>g. g = FullBlock) (create_progress_bar 0 20)) = 0
   \<and> length (filter (\<lambda>g. g = LightShade) (create_progress_bar 0 20)) = 20
   \<and> length (filter (\<lambda>g. g = FullBlock) (create_progress_bar 100 20)) = 20
   \<and> length (filter (\<lambda>g. g = LightShade) (create_progress_bar 100 20)) = 0"
  using progress_bar_cells [of 37] progress_bar_cells [of 0] progress_bar_cells [of 100]
  by simp

section \<open>Status pushes\<close>

lemma download_step_eq:
  "download_step E s fsf n (d, l) w =
     (if s = 0 then (Raise ZeroDivisionError, [WriteChunk n], w)
      else let p = min (py_int (float_mul (fdiv (d + int n) s) (float_of_int 100))) 100;
               msg = Downloading (create_progress_bar p 20) (format_file_size (d + int n)) fsf p
           in if p - l \<ge> 3
              then (case chat_result E (chat_calls w) of
                      None \<Rightarrow> (Ret (d + int n, p), [WriteChunk n, Edited msg],
                               w\<lparr>chat_calls := Suc (chat_calls w)\<rparr>)
                    | Some e \<Rightarrow> (Raise e, [WriteChunk n, ChatFailed msg e],
                                 w\<lparr>chat_calls := Suc (chat_calls w)\<rparr>))
              else (Ret (d + int n, l), [WriteChunk n], w))"
  by (simp add: download_step_def int_truediv_def io_defs Let_def split: option.split)

lemma upload_step_eq:
  "upload_step E name s fsf status l w =
     (case status of
        None \<Rightarrow> (Ret l, [], w)
      | Some fraction \<Rightarrow>
          let p = py_int (float_mul fraction (float_of_int 100));
              msg = Uploading (create_progress_bar p 20)
                      (format_file_size (py_int (float_mul (float_of_int s) fraction))) fsf p name
          in if p - l \<ge> 5
             then (case chat_result E (chat_calls w) of
                     None \<Rightarrow> (Ret p, [Edited msg], w\<lparr>chat_calls := Suc (chat_calls w)\<rparr>)
                   | Some e \<Rightarrow> (Raise e, [ChatFailed msg e], w\<lparr>chat_calls := Suc (chat_calls w)\<rparr>))
             else (Ret l, [], w))"
  by (simp add: upload_step_def io_defs Let_def split: option.split)

lemma download_pushes_append [simp]:
  "download_pushes (xs @ ys) = download_pushes xs @ download_pushes ys"
  by (simp add: download_pushes_def List.map_filter_def)

lemma download_pushes_simps [simp]:
  "download_pushes [] = []"
  "download_pushes (WriteChunk n # es) = download_pushes es"
  "download_pushes (Edited (Downloading b d t p) # es) = p # download_pushes es"
  "download_pushes (ChatFailed (Downloading b d t p) e # es) = p # download_pushes es"
  by (simp_all add: download_pushes_def List.map_filter_def)

lemma upload_pushes_simps [simp]:
  "upload_pushes [] = []"
  "upload_pushes (Edited (Uploading b d t p n) # es) = p # upload_pushes es"
  "upload_pushes (ChatFailed (Uploading b d t p n) e # es) = p # upload_pushes es"
  by (simp_all add: upload_pushes_def List.map_filter_def)

lemma events_of_tuple [simp]: "events_of (r, es, w) = es"
  by (simp add: events_of_def)

lemma world_of_tuple [simp]: "world_of (r, es, w) = w"
  by (simp add: world_of_def)

lemma events_of_then_io:
  "events_of (then_io m f w) =
     (case m w of (Ret a, es, w') \<Rightarrow> es @ events_of (f a w') | (r, es, w') \<Rightarrow> es)"
  by (simp add: then_io_def split: prod.split res.split)

lemma download_loop_pushes:
  "sorted_wrt (<) (download_pushes (events_of (download_loop E s fsf chunks (d, l) w)))
   \<and> (\<forall>p \<in> set (download_pushes (events_of (download_loop E s fsf chunks (d, l) w))). l < p)"
proof (induction chunks arbitrary: d l w)
  case Nil
  then show ?case by (simp add: ret_def)
next
  case (Cons c chunks)
  show ?case
  proof (cases c)
    case (Inl e)
    then show ?thesis by (simp add: raise_def)
  next
    case (Inr n)
    let ?p = "min (py_int (float_mul (fdiv (d + int n) s) (float_of_int 100))) 100"
    show ?thesis
    proof (cases "s \<noteq> 0 \<and> ?p - l \<ge> 3 \<and> chat_result E (chat_calls w) = None")
      case True
      then show ?thesis
        using Cons.IH [of "d + int n" ?p "w\<lparr>chat_calls := Suc (chat_calls w)\<rparr>"] Inr
        by (auto simp add: events_of_then_io download_step_eq Let_def)
    next
      case False
      then show ?thesis
        using Cons.IH [of "d + int n" l w] Inr
        by (auto simp add: events_of_then_io download_step_eq Let_def split: option.split)
    qed
  qed
qed

text \<open>
  Claim C4.  After a downloaded chunk (declared size not zero) the status is pushed if
  and only if the new progress minus \<^verbatim>\<open>last_progress_update\<close> is at least 3, and the
  percentages pushed during a download, which starts from \<open>- 1\<close>, never decrease.  After
  a chunk acknowledgment of the provider the status is pushed if and only if the new
  progress minus \<^verbatim>\<open>last_upload_progress\<close> is at least 5; without a status nothing is
  pushed.
\<close>

theorem status_push_thresholds:
  "(s \<noteq> 0 \<longrightarrow>
      (let progress = min (py_int (float_mul (fdiv (d + int n) s) (float_of_int 100))) 100
       in download_pushes (events_of (download_step E s fsf n (d, l) w)) =
            (if progress - l \<ge> 3 then [progress] else [])))
   \<and> sorted (download_pushes (events_of (download_loop E s fsf chunks (0, - 1) w)))
   \<and> (let progress = py_int (float_mul fraction (float_of_int 100))
      in upload_pushes (events_of (upload_step E name s fsf (Some fraction) l' w)) =
           (if progress - l' \<ge> 5 then [progress] else []))
   \<and> upload_pushes (events_of (upload_step E name s fsf None l' w)) = []"
  using download_loop_pushes [of E s fsf chunks 0 "- 1" w]
  by (auto simp add: download_step_eq upload_step_eq Let_def
        strict_sorted_imp_sorted split: option.split)


lemma written_chunks_simps [simp]:
  "written_chunks [] = []"
  "written_chunks (WriteChunk n # es) = n # written_chunks es"
  "written_chunks (Edited m # es) = written_chunks es"
  "written_chunks (ChatFailed m e # es) = written_chunks es"
  "written_chunks (xs @ ys) = written_chunks xs @ written_chunks ys"
  by (simp_all add: written_chunks_def List.map_filter_def)

lemma download_loop_completes:
  assumes "\<forall>k. chat_result E k = None" and "s \<noteq> 0"
  shows "\<exists>st es w'. download_loop E s fsf (map Inr ns) (d, l) w = (Ret st, es, w')
           \<and> written_chunks es = ns"
proof (induction ns arbitrary: d l w)
  case Nil
  then show ?case by (simp add: ret_def)
next
  case (Cons n ns)
  let ?p = "min (py_int (float_mul (fdiv (d + int n) s) (float_of_int 100))) 100"
  show ?case
  proof (cases "?p - l \<ge> 3")
    case True
    obtain st es w' where
      "download_loop E s fsf (map Inr ns) (d + int n, ?p) (w\<lparr>chat_calls := Suc (chat_calls w)\<rparr>)
         = (Ret st, es, w')" and "written_chunks es = ns"
      using Cons.IH by blast
    then show ?thesis
      using True assms by (simp add: then_io_def download_step_eq Let_def)
  next
    case False
    obtain st es w' where
      "download_loop E s fsf (map Inr ns) (d + int n, l) w = (Ret st, es, w')"
      and "written_chunks es = ns"
      using Cons.IH by blast
    then show ?thesis
      using False assms by (simp add: then_io_def download_step_eq Let_def)
  qed
qed

lemma upload_loop_completes:
  assumes "\<forall>k. chat_result E k = None"
  shows "\<exists>es w'. upload_loop E name s fsf
                    (map (\<lambda>status. Returns status None) statuses @ Returns status (Some r) # rest) l w
                  = (Ret r, es, w')"
proof (induction statuses arbitrary: l w)
  case Nil
  then show ?case
    using assms
    by (cases status) (simp_all add: upload_step_eq io_defs Let_def)
next
  case (Cons st statuses)
  show ?case
  proof (cases st)
    case None
    then show ?thesis
      using Cons.IH [of l w] by (auto simp add: upload_step_eq io_defs)
  next
    case (Some fraction)
    let ?p = "py_int (float_mul fraction (float_of_int 100))"
    show ?thesis
    proof (cases "?p - l \<ge> 5")
      case True
      then show ?thesis
        using Cons.IH [of ?p "w\<lparr>chat_calls := Suc (chat_calls w)\<rparr>"] Some assms
        by (auto simp add: upload_step_eq io_defs Let_def)
    next
      case False
      then show ?thesis
        using Cons.IH [of l w] Some assms
        by (auto simp add: upload_step_eq io_defs Let_def)
    qed
  qed
qed

text \<open>
  Claim C6, as the code has it.  A status push that raises ends the loop: the exception
  leaves the download loop after the chunk just written and the upload loop after the
  acknowledgment just received, whatever chunks or answers remain.  When every status
  edit succeeds (and the declared size is not zero, and the download iterator and the
  provider do not raise), the download loop writes every chunk and the upload loop
  returns the provider's response.
\<close>

theorem failed_status_push_aborts:
  "(s \<noteq> 0 \<and> min (py_int (float_mul (fdiv (d + int n) s) (float_of_int 100))) 100 - l \<ge> 3
      \<and> chat_result E (chat_calls w) = Some e \<longrightarrow>
      fst (download_loop E s fsf (Inr n # chunks) (d, l) w) = Raise e
      \<and> written_chunks (events_of (download_loop E s fsf (Inr n # chunks) (d, l) w)) = [n])
   \<and> (py_int (float_mul fraction (float_of_int 100)) - l' \<ge> 5
      \<and> chat_result E (chat_calls w) = Some e \<longrightarrow>
      fst (upload_loop E name s fsf (Returns (Some fraction) response # answers) l' w) = Raise e
      \<and> length (filter (\<lambda>ev. ev = NextChunk)
            (events_of (upload_loop E name s fsf (Returns (Some fraction) response # answers) l' w)))
          = 1)
   \<and> ((\<forall>k. chat_result E k = None) \<and> s \<noteq> 0 \<longrightarrow>
        (\<exists>st es w'. download_loop E s fsf (map Inr ns) (d, l) w = (Ret st, es, w')
           \<and> written_chunks es = ns))
   \<and> ((\<forall>k. chat_result E k = None) \<longrightarrow>
        (\<exists>es w'. upload_loop E name s fsf
                    (map (\<lambda>status. Returns status None) statuses @ Returns status (Some r) # rest) l' w
                  = (Ret r, es, w')))"
  using download_loop_completes [of E s fsf ns d l w]
        upload_loop_completes [of E name s fsf statuses status r rest l' w]
  by (auto simp add: download_step_eq upload_step_eq io_defs Let_def)

end
